theory Spec2Isabelle
  imports Main
begin

section \<open>The prompt-to-image front end of \<^verbatim>\<open>src/index.tsx\<close>\<close>

text \<open>
  The program is one click handler, \<^verbatim>\<open>handleGeneration\<close>, that validates the input,
  awaits \<^verbatim>\<open>enhancePrompt\<close> (a call to a text-generation service), awaits
  \<^verbatim>\<open>generateImages\<close> (a call to an image-generation service, followed by the rendering of
  the gallery), and toggles the button through \<^verbatim>\<open>setLoadingState\<close>.

  The embedding passes the state of the page explicitly. The two remote services are
  parameters of the model: a function from the request to either the value the promise is
  rejected with (\<open>Inl\<close>) or the response it is fulfilled with (\<open>Inr\<close>). Each service is
  called at most once in a run, so quantifying over all such functions covers every
  behaviour of a service whose promise settles; a promise that never settles is outside
  the model. Every remote call appends its request to the field \<open>calls\<close> of the state,
  which is how the theorems speak about the calls a run makes.

  A JavaScript string is modelled as a \<^typ>\<open>string\<close>, one \<^typ>\<open>char\<close> for each UTF-16
  code unit below 256.
\<close>

subsection \<open>Strings\<close>

text \<open>
  \<^verbatim>\<open>String.prototype.trim\<close> strips white space and line terminators from both ends. Among
  the code units below 256 these are TAB, LF, VT, FF, CR, SP and NBSP.
\<close>

definition is_js_space :: "char \<Rightarrow> bool" where
  "is_js_space c = (c \<in> set [CHR 0x09, CHR 0x0A, CHR 0x0B, CHR 0x0C, CHR 0x0D, CHR 0x20, CHR 0xA0])"

definition trim :: "string \<Rightarrow> string" where
  "trim s = rev (dropWhile is_js_space (rev (dropWhile is_js_space s)))"

text \<open>
  A value of type \<^verbatim>\<open>string | null\<close> is truthy when it is a string that is not empty.
\<close>

fun truthy :: "string option \<Rightarrow> bool" where
  "truthy None = False"
| "truthy (Some b) = (b \<noteq> [])"

text \<open>The decimal numeral that a template literal prints for a non-negative integer.\<close>

definition digit_char :: "nat \<Rightarrow> char" where
  "digit_char d = char_of (48 + d)"

function show_nat :: "nat \<Rightarrow> string" where
  "show_nat n = (if n < 10 then [digit_char n] else show_nat (n div 10) @ [digit_char (n mod 10)])"
  by pat_completeness auto
termination
  by (relation "measure id") auto

declare show_nat.simps [simp del]

subsection \<open>Requests and responses of the two services\<close>

datatype part = InlineData (mimeType: string) (data: string) | TextPart string

record content_request =
  model :: string
  contents :: "part list"
  systemInstruction :: string

record content_response =
  response_text :: string

record images_config =
  numberOfImages :: nat
  aspectRatio :: string
  outputMimeType :: string

record images_request =
  images_model :: string
  prompt :: string
  config :: images_config

record image_data =
  imageBytes :: "string option"

record generated_image =
  image_opt :: "image_data option"

record images_response =
  generatedImages :: "generated_image list option"

datatype js_error = JsError string

type_synonym content_service = "content_request \<Rightarrow> js_error + content_response"

text \<open>
  The response of the image service is read through \<^verbatim>\<open>response?.generatedImages\<close>, so
  it may be null (\<open>None\<close>).
\<close>

type_synonym images_service = "images_request \<Rightarrow> js_error + images_response option"

subsection \<open>The state of the page\<close>

datatype element =
  Message string
| Img (src: string) (alt: string)

datatype remote_call =
  GenerateContentCall content_request
| GenerateImagesCall images_request

datatype log_entry =
  LogEnhanced string
| LogImagen "images_response option"
| LogError js_error

text \<open>
  \<open>Message t\<close> is the element \<^verbatim>\<open><p class="message">t</p>\<close>. The gallery is \<open>None\<close>
  when \<^verbatim>\<open>document.getElementById('image-gallery')\<close> is null, which the code guards
  against, and else holds its children in order. \<open>alerts\<close> are the texts shown by
  \<^verbatim>\<open>alert\<close>, \<open>console\<close> what was written to the console.
\<close>

record state =
  promptValue :: string
  uploadedImageBase64 :: "string option"
  btn_disabled :: bool
  btn_textContent :: string
  imageGallery :: "element list option"
  alerts :: "string list"
  console :: "log_entry list"
  calls :: "remote_call list"

subsection \<open>\<^verbatim>\<open>setLoadingState\<close> and the writes to the gallery\<close>

definition setLoadingState :: "bool \<Rightarrow> string \<Rightarrow> state \<Rightarrow> state" where
  "setLoadingState isLoading message s =
     s\<lparr>btn_disabled := isLoading,
       btn_textContent := (if isLoading then message else ''Generate Images'')\<rparr>"

text \<open>The default value of the parameter \<^verbatim>\<open>message\<close>.\<close>

definition default_message :: string where
  "default_message = ''Generate Images''"

text \<open>\<^verbatim>\<open>if (imageGallery) { imageGallery.innerHTML = ... }\<close>\<close>

definition set_innerHTML :: "element list \<Rightarrow> state \<Rightarrow> state" where
  "set_innerHTML els s =
     (case imageGallery s of
        None \<Rightarrow> s
      | Some _ \<Rightarrow> s\<lparr>imageGallery := Some els\<rparr>)"

definition thinking_message :: element where
  "thinking_message = Message ''Thinking... Gemini is analyzing your idea.''"

definition generating_message :: element where
  "generating_message = Message ''Idea analyzed! Now generating images...''"

definition error_message :: element where
  "error_message = Message ''Error: Could not generate images. Check the console for details.''"

definition no_images_message :: element where
  "no_images_message =
     Message ''No images were generated. This could be due to the safety policy. Try a different prompt.''"

definition validation_alert :: string where
  "validation_alert = ''Please enter a prompt or upload an image.''"

subsection \<open>\<^verbatim>\<open>enhancePrompt\<close>\<close>

definition system_instruction :: string where
  "system_instruction =
     ''You are a world-class creative director. Your task is to analyze the user'' @ [CHR 0x27] @
     ''s input (which can be text, an image, or both) and create a single, clear, highly detailed, and vivid prompt for an advanced AI image generation model. The prompt should be a descriptive paragraph, focusing on visual details like subject, style, lighting, composition, and color palette. Output only the prompt itself, without any extra conversation or explanation.''"

text \<open>The array \<^verbatim>\<open>parts\<close> after the two conditional pushes.\<close>

definition enhancePrompt_parts :: "string \<Rightarrow> string option \<Rightarrow> part list" where
  "enhancePrompt_parts textPrompt imageBase64 =
     (case imageBase64 of
        None \<Rightarrow> []
      | Some b \<Rightarrow> if b \<noteq> [] then [InlineData ''image/jpeg'' b] else [])
     @ (if textPrompt \<noteq> [] then [TextPart textPrompt] else [])"

definition enhancePrompt_request :: "string \<Rightarrow> string option \<Rightarrow> content_request" where
  "enhancePrompt_request textPrompt imageBase64 =
     \<lparr>model = ''gemini-2.5-flash'',
      contents = enhancePrompt_parts textPrompt imageBase64,
      systemInstruction = system_instruction\<rparr>"

definition enhancePrompt ::
  "content_service \<Rightarrow> string \<Rightarrow> string option \<Rightarrow> state \<Rightarrow> (js_error + string) \<times> state" where
  "enhancePrompt generateContent textPrompt imageBase64 s =
     (let req = enhancePrompt_request textPrompt imageBase64;
          s1 = s\<lparr>calls := calls s @ [GenerateContentCall req]\<rparr>
      in case generateContent req of
           Inl e \<Rightarrow> (Inl e, s1)
         | Inr response \<Rightarrow>
             (Inr (response_text response),
              s1\<lparr>console := console s1 @ [LogEnhanced (response_text response)]\<rparr>))"

subsection \<open>\<^verbatim>\<open>generateImages\<close>\<close>

definition generateImages_request :: "string \<Rightarrow> images_request" where
  "generateImages_request p =
     \<lparr>images_model = ''imagen-3.0-generate-002'',
      prompt = p,
      config = \<lparr>numberOfImages = 3, aspectRatio = ''1:1'', outputMimeType = ''image/jpeg''\<rparr>\<rparr>"

text \<open>
  The alt text \<^verbatim>\<open>`${prompt.substring(0, 50)}... - Image ${Number(index) + 1}`\<close>.
\<close>

definition alt_text :: "string \<Rightarrow> nat \<Rightarrow> string" where
  "alt_text p index = take 50 p @ ''... - Image '' @ show_nat (index + 1)"

text \<open>The value of \<^verbatim>\<open>generatedImage.image?.imageBytes\<close>, \<open>None\<close> when undefined.\<close>

definition imageBytes_of :: "generated_image \<Rightarrow> string option" where
  "imageBytes_of generatedImage =
     (case image_opt generatedImage of
        None \<Rightarrow> None
      | Some im \<Rightarrow> imageBytes im)"

text \<open>
  The callback of \<^verbatim>\<open>forEach\<close>, run on the entries from position \<open>index\<close> on; \<open>children\<close>
  are the children of the gallery, to which \<^verbatim>\<open>appendChild\<close> adds at the end.
\<close>

fun forEach_images :: "string \<Rightarrow> nat \<Rightarrow> generated_image list \<Rightarrow> element list \<Rightarrow> element list" where
  "forEach_images p index [] children = children"
| "forEach_images p index (generatedImage # rest) children =
     forEach_images p (Suc index) rest
       (case imageBytes_of generatedImage of
          None \<Rightarrow> children
        | Some b \<Rightarrow>
            if b \<noteq> [] then children @ [Img (''data:image/jpeg;base64,'' @ b) (alt_text p index)]
            else children)"

text \<open>
  The block guarded by \<^verbatim>\<open>imageGallery && response?.generatedImages\<close>: an array, also
  the empty one, is truthy.
\<close>

definition preview_images :: "string \<Rightarrow> images_response option \<Rightarrow> state \<Rightarrow> state" where
  "preview_images p response s =
     (case imageGallery s of
        None \<Rightarrow> s
      | Some _ \<Rightarrow>
          (case response of
             None \<Rightarrow> s
           | Some r \<Rightarrow>
               (case generatedImages r of
                  None \<Rightarrow> s
                | Some imgs \<Rightarrow>
                    s\<lparr>imageGallery :=
                        Some (forEach_images p 0 imgs
                                (if length imgs = 0 then [no_images_message] else []))\<rparr>)))"

definition generateImages ::
  "images_service \<Rightarrow> string \<Rightarrow> state \<Rightarrow> (js_error + unit) \<times> state" where
  "generateImages generateImages_api p s =
     (let req = generateImages_request p;
          s1 = s\<lparr>calls := calls s @ [GenerateImagesCall req]\<rparr>
      in case generateImages_api req of
           Inl e \<Rightarrow> (Inl e, s1)
         | Inr response \<Rightarrow>
             (let s2 = preview_images p response s1
              in (Inr (), s2\<lparr>console := console s2 @ [LogImagen response]\<rparr>)))"

subsection \<open>\<^verbatim>\<open>handleGeneration\<close>\<close>

text \<open>The \<^verbatim>\<open>catch\<close> block.\<close>

definition catch_block :: "js_error \<Rightarrow> state \<Rightarrow> state" where
  "catch_block e s = set_innerHTML [error_message] (s\<lparr>console := console s @ [LogError e]\<rparr>)"

text \<open>The \<^verbatim>\<open>try\<close> block together with its \<^verbatim>\<open>catch\<close>.\<close>

definition try_block :: "content_service \<Rightarrow> images_service \<Rightarrow> string \<Rightarrow> state \<Rightarrow> state" where
  "try_block generateContent generateImages_api textPrompt s =
     (case enhancePrompt generateContent textPrompt (uploadedImageBase64 s) s of
        (Inl e, s1) \<Rightarrow> catch_block e s1
      | (Inr enhancedPrompt, s1) \<Rightarrow>
          (let s2 = set_innerHTML [generating_message] (setLoadingState True ''Generating...'' s1)
           in case generateImages generateImages_api enhancedPrompt s2 of
                (Inl e, s3) \<Rightarrow> catch_block e s3
              | (Inr _, s3) \<Rightarrow> s3))"

text \<open>
  \<open>validation_fails\<close> is the condition
  \<^verbatim>\<open>!textPrompt.trim() && !uploadedImageBase64\<close>.
\<close>

definition validation_fails :: "state \<Rightarrow> bool" where
  "validation_fails s = (trim (promptValue s) = [] \<and> \<not> truthy (uploadedImageBase64 s))"

definition handleGeneration :: "content_service \<Rightarrow> images_service \<Rightarrow> state \<Rightarrow> state" where
  "handleGeneration generateContent generateImages_api s =
     (let textPrompt = promptValue s
      in if validation_fails s then s\<lparr>alerts := alerts s @ [validation_alert]\<rparr>
         else
           (let s1 = set_innerHTML [thinking_message]
                       (setLoadingState True ''Analyzing your idea...'' s);
                s2 = try_block generateContent generateImages_api textPrompt s1
            in setLoadingState False default_message s2))"

subsection \<open>What a run can be observed to do\<close>

text \<open>The remote calls that one run of the handler adds to the log.\<close>

definition new_calls :: "content_service \<Rightarrow> images_service \<Rightarrow> state \<Rightarrow> remote_call list" where
  "new_calls generateContent generateImages_api s =
     drop (length (calls s)) (calls (handleGeneration generateContent generateImages_api s))"

text \<open>The prompts that the image service was called with.\<close>

fun image_prompts :: "remote_call list \<Rightarrow> string list" where
  "image_prompts [] = []"
| "image_prompts (GenerateContentCall r # cs) = image_prompts cs"
| "image_prompts (GenerateImagesCall r # cs) = prompt r # image_prompts cs"

fun content_requests :: "remote_call list \<Rightarrow> content_request list" where
  "content_requests [] = []"
| "content_requests (GenerateContentCall r # cs) = r # content_requests cs"
| "content_requests (GenerateImagesCall r # cs) = content_requests cs"

text \<open>The alt texts of the image elements among the children of the gallery.\<close>

fun image_alts :: "element list \<Rightarrow> string list" where
  "image_alts [] = []"
| "image_alts (Message t # els) = image_alts els"
| "image_alts (Img u a # els) = a # image_alts els"

subsection \<open>The scenario of the specification\<close>

text \<open>
  The prompt is \<^verbatim>\<open>a cat\<close>, no image is uploaded, the enhancement answers \<^verbatim>\<open>X\<close>, and the
  image service returns three images.
\<close>

definition cat_state :: state where
  "cat_state =
     \<lparr>promptValue = ''a cat'', uploadedImageBase64 = None, btn_disabled = False,
      btn_textContent = ''Generate Images'', imageGallery = Some [], alerts = [],
      console = [], calls = []\<rparr>"

definition answers_X :: content_service where
  "answers_X req = Inr \<lparr>response_text = ''X''\<rparr>"

definition with_bytes :: "string \<Rightarrow> generated_image" where
  "with_bytes b = \<lparr>image_opt = Some \<lparr>imageBytes = Some b\<rparr>\<rparr>"

definition three_images :: images_service where
  "three_images req =
     Inr (Some \<lparr>generatedImages = Some [with_bytes ''AAAA'', with_bytes ''BBBB'', with_bytes ''CCCC'']\<rparr>)"

text \<open>Further inputs on which the theorems below are evaluated.\<close>

definition content_down :: content_service where
  "content_down req = Inl (JsError ''503 Service Unavailable'')"

definition images_down :: images_service where
  "images_down req = Inl (JsError ''503 Service Unavailable'')"

definition zero_images :: images_service where
  "zero_images req = Inr (Some \<lparr>generatedImages = Some []\<rparr>)"

definition field_absent :: images_service where
  "field_absent req = Inr (Some \<lparr>generatedImages = None\<rparr>)"

definition blank_state :: state where
  "blank_state = cat_state\<lparr>promptValue := '' ''\<rparr>"

definition blank_with_image_state :: state where
  "blank_with_image_state = cat_state\<lparr>promptValue := ''  '', uploadedImageBase64 := Some ''AAAA''\<rparr>"

section \<open>Properties\<close>

subsection \<open>The four ways a run can go\<close>

lemmas state_ops = setLoadingState_def set_innerHTML_def default_message_def catch_block_def

lemma handleGeneration_invalid:
  "validation_fails s \<Longrightarrow> handleGeneration gc gi s = s\<lparr>alerts := alerts s @ [validation_alert]\<rparr>"
  by (simp add: handleGeneration_def)

lemma handleGeneration_enhance_fails:
  assumes "\<not> validation_fails s"
    and "gc (enhancePrompt_request (promptValue s) (uploadedImageBase64 s)) = Inl e"
  shows "handleGeneration gc gi s =
           s\<lparr>btn_disabled := False, btn_textContent := ''Generate Images'',
             imageGallery := map_option (\<lambda>_. [error_message]) (imageGallery s),
             console := console s @ [LogError e],
             calls := calls s @ [GenerateContentCall (enhancePrompt_request (promptValue s) (uploadedImageBase64 s))]\<rparr>"
  using assms
  by (cases "imageGallery s")
     (simp_all add: handleGeneration_def try_block_def enhancePrompt_def state_ops Let_def)

lemma handleGeneration_images_fails:
  assumes "\<not> validation_fails s"
    and "gc (enhancePrompt_request (promptValue s) (uploadedImageBase64 s)) = Inr r"
    and "gi (generateImages_request (response_text r)) = Inl e"
  shows "handleGeneration gc gi s =
           s\<lparr>btn_disabled := False, btn_textContent := ''Generate Images'',
             imageGallery := map_option (\<lambda>_. [error_message]) (imageGallery s),
             console := console s @ [LogEnhanced (response_text r), LogError e],
             calls := calls s @ [GenerateContentCall (enhancePrompt_request (promptValue s) (uploadedImageBase64 s)),
                                 GenerateImagesCall (generateImages_request (response_text r))]\<rparr>"
  using assms
  by (cases "imageGallery s")
     (simp_all add: handleGeneration_def try_block_def enhancePrompt_def generateImages_def state_ops Let_def)

lemma handleGeneration_success:
  assumes "\<not> validation_fails s"
    and "gc (enhancePrompt_request (promptValue s) (uploadedImageBase64 s)) = Inr r"
    and "gi (generateImages_request (response_text r)) = Inr response"
  shows "handleGeneration gc gi s =
           s\<lparr>btn_disabled := False, btn_textContent := ''Generate Images'',
             imageGallery :=
               imageGallery (preview_images (response_text r) response
                               (set_innerHTML [generating_message] s)),
             console := console s @ [LogEnhanced (response_text r), LogImagen response],
             calls := calls s @ [GenerateContentCall (enhancePrompt_request (promptValue s) (uploadedImageBase64 s)),
                                 GenerateImagesCall (generateImages_request (response_text r))]\<rparr>"
  using assms
  by (cases "imageGallery s")
     (simp_all add: handleGeneration_def try_block_def enhancePrompt_def generateImages_def state_ops Let_def
        preview_images_def split: option.splits)

lemma forEach_images_alts:
  "image_alts (forEach_images p k imgs children) =
     image_alts children @
     map (\<lambda>(i, g). alt_text p i) (filter (\<lambda>(i, g). truthy (imageBytes_of g)) (enumerate k imgs))"
proof (induction imgs arbitrary: k children)
  case Nil
  show ?case by simp
next
  case (Cons g gs)
  have app: "image_alts (xs @ [Img u a]) = image_alts xs @ [a]" for xs u a
    by (induction xs rule: image_alts.induct) simp_all
  show ?case
    by (cases "imageBytes_of g") (simp_all add: Cons.IH app)
qed

lemma cat_valid: "\<not> validation_fails cat_state"
  by (simp add: validation_fails_def cat_state_def trim_def is_js_space_def)

lemma calls_handleGeneration:
  "calls (handleGeneration gc gi s) = calls s @ new_calls gc gi s"
proof (cases "validation_fails s")
  case True
  then show ?thesis
    by (simp add: new_calls_def handleGeneration_invalid)
next
  case False
  show ?thesis
  proof (cases "gc (enhancePrompt_request (promptValue s) (uploadedImageBase64 s))")
    case (Inl e)
    show ?thesis
      by (simp add: new_calls_def handleGeneration_enhance_fails [where gc = gc, OF False Inl])
  next
    case (Inr r)
    show ?thesis
      by (cases "gi (generateImages_request (response_text r))")
         (simp_all add: new_calls_def handleGeneration_images_fails [where gc = gc and gi = gi, OF False Inr]
            handleGeneration_success [where gc = gc and gi = gi, OF False Inr])
  qed
qed

lemma new_calls_invalid: "validation_fails s \<Longrightarrow> new_calls gc gi s = []"
  by (simp add: new_calls_def handleGeneration_invalid)

lemma new_calls_enhance_fails:
  assumes "\<not> validation_fails s"
    and "gc (enhancePrompt_request (promptValue s) (uploadedImageBase64 s)) = Inl e"
  shows "new_calls gc gi s =
           [GenerateContentCall (enhancePrompt_request (promptValue s) (uploadedImageBase64 s))]"
  by (simp add: new_calls_def handleGeneration_enhance_fails [where gc = gc, OF assms])

lemma new_calls_enhanced:
  assumes "\<not> validation_fails s"
    and "gc (enhancePrompt_request (promptValue s) (uploadedImageBase64 s)) = Inr r"
  shows "new_calls gc gi s =
           [GenerateContentCall (enhancePrompt_request (promptValue s) (uploadedImageBase64 s)),
            GenerateImagesCall (generateImages_request (response_text r))]"
  by (cases "gi (generateImages_request (response_text r))")
     (simp_all add: new_calls_def handleGeneration_images_fails [where gc = gc and gi = gi, OF assms]
        handleGeneration_success [where gc = gc and gi = gi, OF assms])

lemma prompt_generateImages_request: "prompt (generateImages_request p) = p"
  by (simp add: generateImages_request_def)

text \<open>
  Claim C1. In a run that passes validation and in which the enhancement call succeeds with
  the response \<open>r\<close> (and the image call succeeds too), \<^verbatim>\<open>enhancePrompt\<close> returns the text
  of \<open>r\<close>, the image service is called exactly once in the run, with exactly that text as
  its prompt, and, whenever that text differs from the text of the prompt field, it is
  never called with the text of the prompt field.
\<close>

theorem images_prompt_is_enhanced_prompt:
  assumes "\<not> validation_fails s"
    and "generateContent (enhancePrompt_request (promptValue s) (uploadedImageBase64 s)) = Inr r"
    and "generateImages_api (generateImages_request (response_text r)) = Inr response"
  shows "fst (enhancePrompt generateContent (promptValue s) (uploadedImageBase64 s) s') = Inr (response_text r)
       \<and> image_prompts (new_calls generateContent generateImages_api s) = [response_text r]
       \<and> (response_text r \<noteq> promptValue s \<longrightarrow>
            promptValue s \<notin> set (image_prompts (new_calls generateContent generateImages_api s)))"
proof -
  have "fst (enhancePrompt generateContent (promptValue s) (uploadedImageBase64 s) s') = Inr (response_text r)"
    using assms(2) by (simp add: enhancePrompt_def Let_def)
  moreover have "image_prompts (new_calls generateContent generateImages_api s) = [response_text r]"
    by (simp add: new_calls_enhanced [where gc = generateContent, OF assms(1,2)] prompt_generateImages_request)
  ultimately show ?thesis
    by auto
qed

theorem images_prompt_is_enhanced_prompt_witness:
  "\<not> validation_fails cat_state
   \<and> answers_X (enhancePrompt_request ''a cat'' None) = Inr \<lparr>response_text = ''X''\<rparr>
   \<and> fst (enhancePrompt answers_X ''a cat'' None cat_state) = Inr ''X''
   \<and> image_prompts (new_calls answers_X three_images cat_state) = [''X'']
   \<and> ''a cat'' \<notin> set (image_prompts (new_calls answers_X three_images cat_state))"
proof -
  have v: "\<not> validation_fails cat_state"
    by (rule cat_valid)
  have a: "answers_X (enhancePrompt_request (promptValue cat_state) (uploadedImageBase64 cat_state))
             = Inr \<lparr>response_text = ''X''\<rparr>"
    by (simp add: answers_X_def)
  have b: "three_images (generateImages_request (response_text \<lparr>response_text = ''X''\<rparr>))
             = Inr (Some \<lparr>generatedImages = Some [with_bytes ''AAAA'', with_bytes ''BBBB'', with_bytes ''CCCC'']\<rparr>)"
    by (simp add: three_images_def)
  show ?thesis
    using images_prompt_is_enhanced_prompt [where generateContent = answers_X and generateImages_api = three_images and s' = cat_state, OF v a b] v
    by (simp add: cat_state_def answers_X_def)
qed

lemma blank_invalid: "trim (promptValue blank_state) = []"
  by (simp add: blank_state_def cat_state_def trim_def is_js_space_def)

text \<open>
  Claim C2. When the prompt text is empty after trimming and no uploaded image is stored,
  the run makes no remote call, shows the validation alert, and changes nothing else.
\<close>

theorem empty_input_aborts:
  assumes "trim (promptValue s) = []"
    and "uploadedImageBase64 s = None"
  shows "handleGeneration generateContent generateImages_api s =
           s\<lparr>alerts := alerts s @ [''Please enter a prompt or upload an image.'']\<rparr>
       \<and> new_calls generateContent generateImages_api s = []"
proof -
  from assms have "validation_fails s"
    by (simp add: validation_fails_def)
  then show ?thesis
    by (simp add: handleGeneration_invalid new_calls_invalid validation_alert_def)
qed

theorem empty_input_aborts_witness:
  "trim (promptValue blank_state) = []
   \<and> uploadedImageBase64 blank_state = None
   \<and> handleGeneration answers_X three_images blank_state =
        blank_state\<lparr>alerts := [''Please enter a prompt or upload an image.'']\<rparr>
   \<and> new_calls answers_X three_images blank_state = []"
proof -
  have u: "uploadedImageBase64 blank_state = None"
    by (simp add: blank_state_def cat_state_def)
  have "alerts blank_state = []"
    by (simp add: blank_state_def cat_state_def)
  then show ?thesis
    using empty_input_aborts [where generateContent = answers_X and generateImages_api = three_images,
        OF blank_invalid u] blank_invalid u
    by simp
qed

text \<open>
  Claim C3. In a run that passes validation the button is enabled again at the end, with
  its label restored, whatever the two remote calls do; and when the enhancement call or
  the image call raises, the gallery (when the page has one) ends with exactly one child,
  the generic error message.
\<close>

theorem error_message_and_button_reenabled:
  assumes "\<not> validation_fails s"
  shows "btn_disabled (handleGeneration generateContent generateImages_api s) = False
       \<and> btn_textContent (handleGeneration generateContent generateImages_api s) = ''Generate Images''
       \<and> (generateContent (enhancePrompt_request (promptValue s) (uploadedImageBase64 s)) = Inl e
            \<or> generateContent (enhancePrompt_request (promptValue s) (uploadedImageBase64 s)) = Inr r
              \<and> generateImages_api (generateImages_request (response_text r)) = Inl e
          \<longrightarrow> imageGallery (handleGeneration generateContent generateImages_api s) =
                map_option (\<lambda>_. [error_message]) (imageGallery s))"
proof -
  let ?req = "enhancePrompt_request (promptValue s) (uploadedImageBase64 s)"
  let ?s' = "handleGeneration generateContent generateImages_api s"
  have button: "btn_disabled ?s' = False \<and> btn_textContent ?s' = ''Generate Images''"
  proof (cases "generateContent ?req")
    case (Inl x)
    show ?thesis
      by (simp add: handleGeneration_enhance_fails [where gc = generateContent, OF assms Inl])
  next
    case (Inr x)
    show ?thesis
      by (cases "generateImages_api (generateImages_request (response_text x))")
         (simp_all add:
            handleGeneration_images_fails [where gc = generateContent and gi = generateImages_api, OF assms Inr]
            handleGeneration_success [where gc = generateContent and gi = generateImages_api, OF assms Inr])
  qed
  have first: "imageGallery ?s' = map_option (\<lambda>_. [error_message]) (imageGallery s)"
    if "generateContent ?req = Inl e"
    by (simp add: handleGeneration_enhance_fails [where gc = generateContent, OF assms that])
  have second: "imageGallery ?s' = map_option (\<lambda>_. [error_message]) (imageGallery s)"
    if "generateContent ?req = Inr r" and "generateImages_api (generateImages_request (response_text r)) = Inl e"
    by (simp add: handleGeneration_images_fails [where gc = generateContent and gi = generateImages_api, OF assms that])
  from button first second show ?thesis
    by blast
qed

theorem error_message_and_button_reenabled_witness:
  "\<not> validation_fails cat_state
   \<and> answers_X (enhancePrompt_request ''a cat'' None) = Inr \<lparr>response_text = ''X''\<rparr>
   \<and> images_down (generateImages_request ''X'') = Inl (JsError ''503 Service Unavailable'')
   \<and> btn_disabled (handleGeneration answers_X images_down cat_state) = False
   \<and> btn_textContent (handleGeneration answers_X images_down cat_state) = ''Generate Images''
   \<and> imageGallery (handleGeneration answers_X images_down cat_state) =
        Some [Message ''Error: Could not generate images. Check the console for details.'']"
  using error_message_and_button_reenabled
          [where generateContent = answers_X and generateImages_api = images_down
             and r = "\<lparr>response_text = ''X''\<rparr>" and e = "JsError ''503 Service Unavailable''",
           OF cat_valid]
        cat_valid
  by (simp add: answers_X_def images_down_def cat_state_def error_message_def)

subsection \<open>The rendering of the gallery\<close>

lemma generateImages_fulfilled:
  assumes "generateImages_api (generateImages_request p) = Inr response"
  shows "generateImages generateImages_api p s =
           (Inr (),
            (preview_images p response (s\<lparr>calls := calls s @ [GenerateImagesCall (generateImages_request p)]\<rparr>))
              \<lparr>console := console s @ [LogImagen response]\<rparr>)"
  using assms
  by (simp add: generateImages_def Let_def preview_images_def split: option.splits)

text \<open>
  Claim C4. When the image service answers with an empty list of results,
  \<^verbatim>\<open>generateImages\<close> returns normally and leaves the gallery (when the page has one) with
  exactly one child, the "no images" message, and so with no image element; in a run of
  the handler the error path is not taken: nothing is logged as an error and the gallery
  ends in that same state.
\<close>

theorem zero_results_show_no_images_message:
  assumes "generateImages_api (generateImages_request p) = Inr (Some response)"
    and "generatedImages response = Some []"
  shows "fst (generateImages generateImages_api p s) = Inr ()
       \<and> imageGallery (snd (generateImages generateImages_api p s)) =
           map_option (\<lambda>_. [no_images_message]) (imageGallery s)
       \<and> map_option image_alts (imageGallery (snd (generateImages generateImages_api p s))) =
           map_option (\<lambda>_. []) (imageGallery s)
       \<and> (\<not> validation_fails s
            \<and> generateContent (enhancePrompt_request (promptValue s) (uploadedImageBase64 s)) = Inr r
            \<and> response_text r = p
          \<longrightarrow> imageGallery (handleGeneration generateContent generateImages_api s) =
                map_option (\<lambda>_. [no_images_message]) (imageGallery s)
              \<and> console (handleGeneration generateContent generateImages_api s) =
                  console s @ [LogEnhanced p, LogImagen (Some response)])"
proof -
  have g: "imageGallery (preview_images p (Some response) t) =
             map_option (\<lambda>_. [no_images_message]) (imageGallery t)" for t
    using assms(2) by (cases "imageGallery t") (simp_all add: preview_images_def)
  have "fst (generateImages generateImages_api p s) = Inr ()"
    by (simp add: generateImages_fulfilled [where generateImages_api = generateImages_api, OF assms(1)])
  moreover have "imageGallery (snd (generateImages generateImages_api p s)) =
      map_option (\<lambda>_. [no_images_message]) (imageGallery s)"
    by (simp add: generateImages_fulfilled [where generateImages_api = generateImages_api, OF assms(1)] g)
  moreover have "map_option image_alts (imageGallery (snd (generateImages generateImages_api p s))) =
      map_option (\<lambda>_. []) (imageGallery s)"
    by (cases "imageGallery s")
       (simp_all add: generateImages_fulfilled [where generateImages_api = generateImages_api, OF assms(1)] g
          no_images_message_def)
  moreover have "imageGallery (handleGeneration generateContent generateImages_api s) =
                map_option (\<lambda>_. [no_images_message]) (imageGallery s)
              \<and> console (handleGeneration generateContent generateImages_api s) =
                  console s @ [LogEnhanced p, LogImagen (Some response)]"
    if v: "\<not> validation_fails s"
      and c: "generateContent (enhancePrompt_request (promptValue s) (uploadedImageBase64 s)) = Inr r"
      and p: "response_text r = p"
  proof -
    from assms(1) p
    have i: "generateImages_api (generateImages_request (response_text r)) = Inr (Some response)"
      by simp
    have "imageGallery (set_innerHTML [generating_message] s) = map_option (\<lambda>_. [generating_message]) (imageGallery s)"
      by (cases "imageGallery s") (simp_all add: set_innerHTML_def)
    then show ?thesis
      using p
      by (cases "imageGallery s")
         (simp_all add: handleGeneration_success [where gc = generateContent and gi = generateImages_api, OF v c i] g)
  qed
  ultimately show ?thesis
    by blast
qed

theorem zero_results_show_no_images_message_witness:
  "zero_images (generateImages_request ''X'') = Inr (Some \<lparr>generatedImages = Some []\<rparr>)
   \<and> \<not> validation_fails cat_state
   \<and> answers_X (enhancePrompt_request ''a cat'' None) = Inr \<lparr>response_text = ''X''\<rparr>
   \<and> fst (generateImages zero_images ''X'' cat_state) = Inr ()
   \<and> imageGallery (snd (generateImages zero_images ''X'' cat_state)) =
        Some [Message ''No images were generated. This could be due to the safety policy. Try a different prompt.'']
   \<and> map_option image_alts (imageGallery (snd (generateImages zero_images ''X'' cat_state))) = Some []
   \<and> imageGallery (handleGeneration answers_X zero_images cat_state) =
        Some [Message ''No images were generated. This could be due to the safety policy. Try a different prompt.'']
   \<and> console (handleGeneration answers_X zero_images cat_state) =
        [LogEnhanced ''X'', LogImagen (Some \<lparr>generatedImages = Some []\<rparr>)]"
proof -
  have z: "zero_images (generateImages_request ''X'') = Inr (Some \<lparr>generatedImages = Some []\<rparr>)"
    by (simp add: zero_images_def)
  have e: "generatedImages \<lparr>generatedImages = Some []\<rparr> = Some []"
    by simp
  show ?thesis
    using zero_results_show_no_images_message
            [where generateImages_api = zero_images and generateContent = answers_X and s = cat_state
               and r = "\<lparr>response_text = ''X''\<rparr>", OF z e]
          cat_valid z
    by (simp add: answers_X_def cat_state_def no_images_message_def)
qed

text \<open>
  Claim C9. When the image service answers with a response whose field
  \<^verbatim>\<open>generatedImages\<close> is absent, \<^verbatim>\<open>generateImages\<close> returns normally and leaves the gallery
  as it was; in a run of the handler the gallery (when the page has one) therefore ends
  with the "now generating" status message as its only child: no image and no "no images"
  message is rendered.
\<close>

theorem absent_field_leaves_gallery:
  assumes "generateImages_api (generateImages_request p) = Inr (Some response)"
    and "generatedImages response = None"
  shows "fst (generateImages generateImages_api p s) = Inr ()
       \<and> imageGallery (snd (generateImages generateImages_api p s)) = imageGallery s
       \<and> (\<not> validation_fails s
            \<and> generateContent (enhancePrompt_request (promptValue s) (uploadedImageBase64 s)) = Inr r
            \<and> response_text r = p
          \<longrightarrow> imageGallery (handleGeneration generateContent generateImages_api s) =
                map_option (\<lambda>_. [generating_message]) (imageGallery s))"
proof -
  have g: "preview_images p (Some response) t = t" for t
    using assms(2) by (cases "imageGallery t") (simp_all add: preview_images_def)
  have "fst (generateImages generateImages_api p s) = Inr ()"
    by (simp add: generateImages_fulfilled [where generateImages_api = generateImages_api, OF assms(1)])
  moreover have "imageGallery (snd (generateImages generateImages_api p s)) = imageGallery s"
    by (simp add: generateImages_fulfilled [where generateImages_api = generateImages_api, OF assms(1)] g)
  moreover have "imageGallery (handleGeneration generateContent generateImages_api s) =
                map_option (\<lambda>_. [generating_message]) (imageGallery s)"
    if v: "\<not> validation_fails s"
      and c: "generateContent (enhancePrompt_request (promptValue s) (uploadedImageBase64 s)) = Inr r"
      and p: "response_text r = p"
  proof -
    from assms(1) p
    have i: "generateImages_api (generateImages_request (response_text r)) = Inr (Some response)"
      by simp
    show ?thesis
      using p
      by (cases "imageGallery s")
         (simp_all add: handleGeneration_success [where gc = generateContent and gi = generateImages_api, OF v c i]
            g set_innerHTML_def)
  qed
  ultimately show ?thesis
    by blast
qed

theorem absent_field_leaves_gallery_witness:
  "field_absent (generateImages_request ''X'') = Inr (Some \<lparr>generatedImages = None\<rparr>)
   \<and> \<not> validation_fails cat_state
   \<and> answers_X (enhancePrompt_request ''a cat'' None) = Inr \<lparr>response_text = ''X''\<rparr>
   \<and> fst (generateImages field_absent ''X'' cat_state) = Inr ()
   \<and> imageGallery (snd (generateImages field_absent ''X'' cat_state)) = Some []
   \<and> imageGallery (handleGeneration answers_X field_absent cat_state) =
        Some [Message ''Idea analyzed! Now generating images...'']"
proof -
  have z: "field_absent (generateImages_request ''X'') = Inr (Some \<lparr>generatedImages = None\<rparr>)"
    by (simp add: field_absent_def)
  have e: "generatedImages \<lparr>generatedImages = None\<rparr> = None"
    by simp
  show ?thesis
    using absent_field_leaves_gallery
            [where generateImages_api = field_absent and generateContent = answers_X and s = cat_state
               and r = "\<lparr>response_text = ''X''\<rparr>", OF z e]
          cat_valid z
    by (simp add: answers_X_def cat_state_def generating_message_def)
qed

subsection \<open>The calls of a run\<close>

text \<open>
  Claim C5. When the enhancement call of a run raises, that call is the only remote call
  of the run: the image service is not called. In every run each of the two services is
  called at most once, and the calls logged before the run are kept.
\<close>

theorem failed_first_call_stops_the_run:
  "(\<not> validation_fails s
      \<and> generateContent (enhancePrompt_request (promptValue s) (uploadedImageBase64 s)) = Inl e
    \<longrightarrow> new_calls generateContent generateImages_api s =
          [GenerateContentCall (enhancePrompt_request (promptValue s) (uploadedImageBase64 s))]
        \<and> image_prompts (new_calls generateContent generateImages_api s) = [])
   \<and> length (content_requests (new_calls generateContent generateImages_api s)) \<le> 1
   \<and> length (image_prompts (new_calls generateContent generateImages_api s)) \<le> 1
   \<and> calls (handleGeneration generateContent generateImages_api s) =
       calls s @ new_calls generateContent generateImages_api s"
proof -
  let ?req = "enhancePrompt_request (promptValue s) (uploadedImageBase64 s)"
  let ?new = "new_calls generateContent generateImages_api s"
  have failed: "?new = [GenerateContentCall ?req] \<and> image_prompts ?new = []"
    if "\<not> validation_fails s" and "generateContent ?req = Inl e"
    by (simp add: new_calls_enhance_fails [where gc = generateContent, OF that])
  have once: "length (content_requests ?new) \<le> 1 \<and> length (image_prompts ?new) \<le> 1"
  proof (cases "validation_fails s")
    case True
    then show ?thesis
      by (simp add: new_calls_invalid)
  next
    case False
    show ?thesis
    proof (cases "generateContent ?req")
      case (Inl x)
      show ?thesis
        by (simp add: new_calls_enhance_fails [where gc = generateContent, OF False Inl])
    next
      case (Inr x)
      show ?thesis
        by (simp add: new_calls_enhanced [where gc = generateContent, OF False Inr])
    qed
  qed
  from failed once calls_handleGeneration [of generateContent generateImages_api s]
  show ?thesis
    by blast
qed

theorem failed_first_call_stops_the_run_witness:
  "\<not> validation_fails cat_state
   \<and> content_down (enhancePrompt_request ''a cat'' None) = Inl (JsError ''503 Service Unavailable'')
   \<and> new_calls content_down three_images cat_state = [GenerateContentCall (enhancePrompt_request ''a cat'' None)]
   \<and> image_prompts (new_calls content_down three_images cat_state) = []"
  using failed_first_call_stops_the_run
          [where generateContent = content_down and generateImages_api = three_images and s = cat_state
             and e = "JsError ''503 Service Unavailable''"]
        cat_valid
  by (simp add: content_down_def cat_state_def)

subsection \<open>The requests\<close>

lemma enhancePrompt_calls:
  "calls (snd (enhancePrompt generateContent textPrompt encoded s)) =
     calls s @ [GenerateContentCall (enhancePrompt_request textPrompt encoded)]"
  by (simp add: enhancePrompt_def Let_def split: sum.splits)

text \<open>
  Claim C6. \<^verbatim>\<open>enhancePrompt\<close> sends one request, whose parts are, in this order: the image
  part, tagged \<^verbatim>\<open>image/jpeg\<close> and carrying the encoding, when an image is present (the
  encoding is a non-empty string), and the text part when the text is present (non-empty).
  Without an image the request holds the text part alone.
\<close>

theorem request_parts_in_order:
  "calls (snd (enhancePrompt generateContent textPrompt encoded s)) =
     calls s @ [GenerateContentCall (enhancePrompt_request textPrompt encoded)]
   \<and> (encoded = Some b \<and> b \<noteq> [] \<and> textPrompt \<noteq> [] \<longrightarrow>
        contents (enhancePrompt_request textPrompt encoded) =
          [InlineData ''image/jpeg'' b, TextPart textPrompt])
   \<and> (encoded = Some b \<and> b \<noteq> [] \<and> textPrompt = [] \<longrightarrow>
        contents (enhancePrompt_request textPrompt encoded) = [InlineData ''image/jpeg'' b])
   \<and> (\<not> truthy encoded \<and> textPrompt \<noteq> [] \<longrightarrow>
        contents (enhancePrompt_request textPrompt encoded) = [TextPart textPrompt])
   \<and> (\<not> truthy encoded \<and> textPrompt = [] \<longrightarrow>
        contents (enhancePrompt_request textPrompt encoded) = [])"
proof -
  have "contents (enhancePrompt_request textPrompt encoded) = [TextPart textPrompt]"
    if "\<not> truthy encoded" and "textPrompt \<noteq> []"
    using that by (cases encoded) (simp_all add: enhancePrompt_request_def enhancePrompt_parts_def)
  moreover have "contents (enhancePrompt_request textPrompt encoded) = []"
    if "\<not> truthy encoded" and "textPrompt = []"
    using that by (cases encoded) (simp_all add: enhancePrompt_request_def enhancePrompt_parts_def)
  ultimately show ?thesis
    by (simp add: enhancePrompt_calls enhancePrompt_request_def enhancePrompt_parts_def)
qed

theorem request_parts_in_order_witness:
  "contents (enhancePrompt_request ''a cat'' (Some ''AAAA'')) = [InlineData ''image/jpeg'' ''AAAA'', TextPart ''a cat'']
   \<and> contents (enhancePrompt_request '''' (Some ''AAAA'')) = [InlineData ''image/jpeg'' ''AAAA'']
   \<and> contents (enhancePrompt_request ''a cat'' None) = [TextPart ''a cat'']
   \<and> contents (enhancePrompt_request '''' None) = []"
  using request_parts_in_order [of _ "''a cat''" "Some ''AAAA''" _ "''AAAA''"]
        request_parts_in_order [where textPrompt = "''''" and encoded = "Some ''AAAA''" and b = "''AAAA''"]
        request_parts_in_order [of _ "''a cat''" None]
        request_parts_in_order [where textPrompt = "''''" and encoded = None]
  by simp

text \<open>
  Claim C7. Whatever the prompt, \<^verbatim>\<open>generateImages\<close> makes one call to the image service,
  and that call asks for 3 images, the aspect ratio \<^verbatim>\<open>1:1\<close> and the output type
  \<^verbatim>\<open>image/jpeg\<close>.
\<close>

theorem images_request_is_fixed:
  "calls (snd (generateImages generateImages_api p s)) =
     calls s @ [GenerateImagesCall
                  \<lparr>images_model = ''imagen-3.0-generate-002'', prompt = p,
                   config = \<lparr>numberOfImages = 3, aspectRatio = ''1:1'', outputMimeType = ''image/jpeg''\<rparr>\<rparr>]"
  by (simp add: generateImages_def generateImages_request_def Let_def preview_images_def
        split: sum.splits option.splits)

theorem images_request_is_fixed_witness:
  "calls (snd (generateImages three_images ''X'' cat_state)) =
     [GenerateImagesCall
        \<lparr>images_model = ''imagen-3.0-generate-002'', prompt = ''X'',
         config = \<lparr>numberOfImages = 3, aspectRatio = ''1:1'', outputMimeType = ''image/jpeg''\<rparr>\<rparr>]"
  using images_request_is_fixed [of three_images "''X''" cat_state]
  by (simp add: cat_state_def)

lemma blank_with_image_valid: "\<not> validation_fails blank_with_image_state"
  by (simp add: validation_fails_def blank_with_image_state_def cat_state_def)

text \<open>
  Claim C10. The request of \<^verbatim>\<open>enhancePrompt\<close> has a text part exactly when the text it is
  given is not the empty string, and then that part is the text itself. The handler gives
  it the value of the prompt field untrimmed: in a run that passes validation the first
  call is the request built from that value, so a prompt of white space only, together
  with an uploaded image, is sent as the image part followed by a text part of that
  white space.
\<close>

theorem text_part_is_raw_prompt:
  "(TextPart x \<in> set (contents (enhancePrompt_request textPrompt encoded))
      \<longleftrightarrow> x = textPrompt \<and> textPrompt \<noteq> [])
   \<and> (\<not> validation_fails s \<longrightarrow>
        take 1 (new_calls generateContent generateImages_api s) =
          [GenerateContentCall (enhancePrompt_request (promptValue s) (uploadedImageBase64 s))])
   \<and> (promptValue s \<noteq> [] \<and> trim (promptValue s) = [] \<and> uploadedImageBase64 s = Some b \<and> b \<noteq> [] \<longrightarrow>
        take 1 (content_requests (new_calls generateContent generateImages_api s)) =
          [\<lparr>model = ''gemini-2.5-flash'',
            contents = [InlineData ''image/jpeg'' b, TextPart (promptValue s)],
            systemInstruction = system_instruction\<rparr>])"
proof -
  let ?req = "enhancePrompt_request (promptValue s) (uploadedImageBase64 s)"
  let ?new = "new_calls generateContent generateImages_api s"
  have iff: "TextPart x \<in> set (contents (enhancePrompt_request textPrompt encoded))
      \<longleftrightarrow> x = textPrompt \<and> textPrompt \<noteq> []"
    by (cases encoded) (auto simp add: enhancePrompt_request_def enhancePrompt_parts_def)
  have first: "take 1 ?new = [GenerateContentCall ?req]" if v: "\<not> validation_fails s"
  proof (cases "generateContent ?req")
    case (Inl e)
    show ?thesis
      by (simp add: new_calls_enhance_fails [where gc = generateContent, OF v Inl])
  next
    case (Inr r)
    show ?thesis
      by (simp add: new_calls_enhanced [where gc = generateContent, OF v Inr])
  qed
  have blank: "take 1 (content_requests ?new) =
          [\<lparr>model = ''gemini-2.5-flash'',
            contents = [InlineData ''image/jpeg'' b, TextPart (promptValue s)],
            systemInstruction = system_instruction\<rparr>]"
    if t: "promptValue s \<noteq> []" and u: "uploadedImageBase64 s = Some b" and b: "b \<noteq> []"
  proof -
    from u b have v: "\<not> validation_fails s"
      by (simp add: validation_fails_def)
    have r: "?req = \<lparr>model = ''gemini-2.5-flash'',
            contents = [InlineData ''image/jpeg'' b, TextPart (promptValue s)],
            systemInstruction = system_instruction\<rparr>"
      using t u b by (simp add: enhancePrompt_request_def enhancePrompt_parts_def)
    show ?thesis
    proof (cases "generateContent ?req")
      case (Inl e)
      show ?thesis
        unfolding new_calls_enhance_fails [where gc = generateContent, OF v Inl] r
        by simp
    next
      case (Inr resp)
      show ?thesis
        unfolding new_calls_enhanced [where gc = generateContent, OF v Inr] r
        by simp
    qed
  qed
  from iff first blank show ?thesis
    by blast
qed

theorem text_part_is_raw_prompt_witness:
  "\<not> validation_fails blank_with_image_state
   \<and> trim ''  '' = []
   \<and> take 1 (content_requests (new_calls answers_X three_images blank_with_image_state)) =
        [\<lparr>model = ''gemini-2.5-flash'',
          contents = [InlineData ''image/jpeg'' ''AAAA'', TextPart ''  ''],
          systemInstruction = system_instruction\<rparr>]
   \<and> TextPart ''  '' \<in> set (contents (enhancePrompt_request ''  '' (Some ''AAAA'')))
   \<and> TextPart '''' \<notin> set (contents (enhancePrompt_request '''' (Some ''AAAA'')))"
proof -
  have t: "trim ''  '' = []"
    by (simp add: trim_def is_js_space_def)
  show ?thesis
    using text_part_is_raw_prompt [of "''  ''" "''  ''" "Some ''AAAA''" blank_with_image_state answers_X three_images "''AAAA''"]
          text_part_is_raw_prompt [of "''''" "''''" "Some ''AAAA''" blank_with_image_state answers_X three_images "''AAAA''"]
          blank_with_image_valid t
    by (simp add: blank_with_image_state_def cat_state_def)
qed

subsection \<open>The alt texts\<close>

lemma show_nat_Suc:
  "show_nat (Suc 0) = ''1''"
  "show_nat (Suc (Suc 0)) = ''2''"
  "show_nat (Suc (Suc (Suc 0))) = ''3''"
  by code_simp+

lemma cat_run:
  "handleGeneration answers_X three_images cat_state =
     cat_state
       \<lparr>btn_disabled := False, btn_textContent := ''Generate Images'',
        imageGallery :=
          imageGallery
            (preview_images ''X''
               (Some \<lparr>generatedImages = Some [with_bytes ''AAAA'', with_bytes ''BBBB'', with_bytes ''CCCC'']\<rparr>)
               (set_innerHTML [generating_message] cat_state)),
        console := console cat_state @
          [LogEnhanced ''X'',
           LogImagen (Some \<lparr>generatedImages = Some [with_bytes ''AAAA'', with_bytes ''BBBB'', with_bytes ''CCCC'']\<rparr>)],
        calls := calls cat_state @
          [GenerateContentCall (enhancePrompt_request (promptValue cat_state) (uploadedImageBase64 cat_state)),
           GenerateImagesCall (generateImages_request ''X'')]\<rparr>"
proof -
  have a: "answers_X (enhancePrompt_request (promptValue cat_state) (uploadedImageBase64 cat_state))
             = Inr \<lparr>response_text = ''X''\<rparr>"
    by (simp add: answers_X_def)
  have b: "three_images (generateImages_request (response_text \<lparr>response_text = ''X''\<rparr>))
             = Inr (Some \<lparr>generatedImages = Some [with_bytes ''AAAA'', with_bytes ''BBBB'', with_bytes ''CCCC'']\<rparr>)"
    by (simp add: three_images_def)
  show ?thesis
    using handleGeneration_success [where gc = answers_X and gi = three_images, OF cat_valid a b]
    by simp
qed

lemma cat_gallery:
  "imageGallery (handleGeneration answers_X three_images cat_state) =
     Some [Img ''data:image/jpeg;base64,AAAA'' ''X... - Image 1'',
           Img ''data:image/jpeg;base64,BBBB'' ''X... - Image 2'',
           Img ''data:image/jpeg;base64,CCCC'' ''X... - Image 3'']"
  unfolding cat_run
  by (simp add: preview_images_def set_innerHTML_def cat_state_def with_bytes_def imageBytes_of_def
        alt_text_def show_nat_Suc)

text \<open>
  Claim C8, as stated, fails: in the scenario the alt texts are made from the enhanced
  prompt \<^verbatim>\<open>X\<close>, not from the user's \<^verbatim>\<open>a cat\<close>.
\<close>

theorem alt_text_scenario_counterexample:
  "promptValue cat_state = ''a cat''
   \<and> uploadedImageBase64 cat_state = None
   \<and> fst (enhancePrompt answers_X ''a cat'' None cat_state) = Inr ''X''
   \<and> map_option image_alts (imageGallery (handleGeneration answers_X three_images cat_state)) =
        Some [''X... - Image 1'', ''X... - Image 2'', ''X... - Image 3'']
   \<and> map_option image_alts (imageGallery (handleGeneration answers_X three_images cat_state)) \<noteq>
        Some [''a cat... - Image 1'', ''a cat... - Image 2'', ''a cat... - Image 3'']"
  by (simp add: cat_gallery) (simp add: cat_state_def enhancePrompt_def answers_X_def Let_def)

text \<open>
  Claim C8, amended. In a run in which both calls succeed and the image service returns
  the list \<open>imgs\<close>, the image elements of the gallery carry, in order, one alt text for each
  entry of \<open>imgs\<close> that has image bytes: the first 50 characters of the enhanced prompt
  (the prompt \<^verbatim>\<open>generateImages\<close> was called with), then \<^verbatim>\<open>... - Image\<close> and the 1-based
  position of the entry in \<open>imgs\<close>. In the scenario these are \<^verbatim>\<open>X... - Image 1\<close>,
  \<^verbatim>\<open>X... - Image 2\<close> and \<^verbatim>\<open>X... - Image 3\<close>.
\<close>

theorem alt_text_from_enhanced_prompt:
  assumes "\<not> validation_fails s"
    and "imageGallery s = Some g0"
    and "generateContent (enhancePrompt_request (promptValue s) (uploadedImageBase64 s)) = Inr r"
    and "generateImages_api (generateImages_request (response_text r)) = Inr (Some response)"
    and "generatedImages response = Some imgs"
  shows "map_option image_alts (imageGallery (handleGeneration generateContent generateImages_api s)) =
           Some (map (\<lambda>(i, g). take 50 (response_text r) @ ''... - Image '' @ show_nat (i + 1))
                   (filter (\<lambda>(i, g). truthy (imageBytes_of g)) (enumerate 0 imgs)))"
proof -
  have "imageGallery (handleGeneration generateContent generateImages_api s) =
          Some (forEach_images (response_text r) 0 imgs (if length imgs = 0 then [no_images_message] else []))"
    using assms(2,5)
    by (simp add: handleGeneration_success [where gc = generateContent and gi = generateImages_api, OF assms(1,3,4)]
          preview_images_def set_innerHTML_def)
  moreover have "image_alts (if length imgs = 0 then [no_images_message] else []) = []"
    by (simp add: no_images_message_def)
  ultimately show ?thesis
    by (simp add: forEach_images_alts alt_text_def del: length_0_conv)
qed

theorem alt_text_from_enhanced_prompt_witness:
  "\<not> validation_fails cat_state
   \<and> imageGallery cat_state = Some []
   \<and> answers_X (enhancePrompt_request ''a cat'' None) = Inr \<lparr>response_text = ''X''\<rparr>
   \<and> three_images (generateImages_request ''X'') =
        Inr (Some \<lparr>generatedImages = Some [with_bytes ''AAAA'', with_bytes ''BBBB'', with_bytes ''CCCC'']\<rparr>)
   \<and> map_option image_alts (imageGallery (handleGeneration answers_X three_images cat_state)) =
        Some [''X... - Image 1'', ''X... - Image 2'', ''X... - Image 3'']"
proof -
  let ?response = "\<lparr>generatedImages = Some [with_bytes ''AAAA'', with_bytes ''BBBB'', with_bytes ''CCCC'']\<rparr>"
  have g: "imageGallery cat_state = Some []"
    by (simp add: cat_state_def)
  have a: "answers_X (enhancePrompt_request (promptValue cat_state) (uploadedImageBase64 cat_state))
             = Inr \<lparr>response_text = ''X''\<rparr>"
    by (simp add: answers_X_def)
  have b: "three_images (generateImages_request (response_text \<lparr>response_text = ''X''\<rparr>)) = Inr (Some ?response)"
    by (simp add: three_images_def)
  have c: "generatedImages ?response = Some [with_bytes ''AAAA'', with_bytes ''BBBB'', with_bytes ''CCCC'']"
    by simp
  have "map_option image_alts (imageGallery (handleGeneration answers_X three_images cat_state)) =
        Some [''X... - Image 1'', ''X... - Image 2'', ''X... - Image 3'']"
    using alt_text_from_enhanced_prompt
            [where generateContent = answers_X and generateImages_api = three_images, OF cat_valid g a b c]
    by (simp add: with_bytes_def imageBytes_of_def show_nat_Suc)
  with cat_valid g show ?thesis
    by (simp add: answers_X_def three_images_def)
qed

end
